theory Spec2Isabelle
  imports Complex_Main "HOL-Library.Word"
begin

section \<open>Hotel front-desk API: data model\<close>

text \<open>
  The embedding follows \<^verbatim>\<open>src/schemas.py\<close> and \<^verbatim>\<open>src/main.py\<close>.

  Conventions of the model:
  \<^item> Python \<^verbatim>\<open>float\<close> values (rates, prices, totals) are exact rationals
    (\<open>pyfloat\<close>); binary rounding of IEEE doubles is not modelled.
  \<^item> A \<^verbatim>\<open>datetime\<close> is a count of microseconds, tagged as timezone-aware
    (an instant, counted from the epoch) or naive (a wall-clock reading).
  \<^item> An HTTP request sees one clock reading \<open>now\<close>: all calls of
    \<^verbatim>\<open>datetime.now(timezone.utc)\<close> inside one handler return it.
  \<^item> A handler returns its response or its exception together with the store
    it leaves behind.
\<close>

type_synonym pyfloat = rat

datatype datetime = Aware int | Naive int

text \<open>What a stored document may hold under a timestamp key: a native datetime,
  a string, or nothing (\<^verbatim>\<open>None\<close>, or the key is absent and \<^verbatim>\<open>.get\<close> gives \<^verbatim>\<open>None\<close>).\<close>

datatype stamp = Stamp datetime | Text string | Null

datatype error = HTTPException nat string | TypeError

subsection \<open>schemas.py\<close>

record Checkin =
  ci_name :: string
  ci_phone :: string
  ci_idtype :: "string option"
  ci_id :: "string option"
  ci_address :: "string option"
  ci_room :: string
  ci_roomType :: "string option"
  ci_rate :: pyfloat
  ci_adults :: int
  ci_children :: int
  ci_advance :: pyfloat
  ci_mode :: "string option"
  ci_remarks :: "string option"
  ci_createdAt :: "datetime option"
  ci_status :: string

record OrderItem =
  it_name :: string
  it_qty :: int
  it_price :: pyfloat

record Order =
  od_type :: string
  od_room :: "string option"
  od_name :: "string option"
  od_phone :: string
  od_items :: "OrderItem list"
  od_total :: pyfloat
  od_status :: string
  od_mode :: string
  od_createdAt :: "datetime option"
  od_synced :: "bool option"

record Bill =
  bl_id :: string
  bl_guest :: string
  bl_phone :: string
  bl_room :: string
  bl_nights :: int
  bl_roomCharges :: pyfloat
  bl_foodTotal :: pyfloat
  bl_advance :: pyfloat
  bl_tax :: pyfloat
  bl_total :: pyfloat
  bl_status :: string
  bl_mode :: string
  bl_createdAt :: "datetime option"

subsection \<open>Request bodies declared in main.py\<close>

record PayRequest =
  pr_mode :: string

record CheckoutRequest =
  rq_room :: string
  rq_phone :: string

subsection \<open>Stored documents\<close>

text \<open>
  A stored document is the dictionary that was inserted, plus the store-assigned
  \<^verbatim>\<open>_id\<close> (here \<open>*_oid\<close>) and the \<^verbatim>\<open>updated_at\<close> key that the
  \<^verbatim>\<open>$set\<close> updates of main.py add. The check-in document is read back as an untyped
  dictionary: its \<^verbatim>\<open>createdAt\<close> and \<^verbatim>\<open>created_at\<close> keys are \<open>stamp\<close>s.
\<close>

record checkin_doc =
  ck_oid :: nat
  ck_name :: string
  ck_phone :: string
  ck_idtype :: "string option"
  ck_id :: "string option"
  ck_address :: "string option"
  ck_room :: string
  ck_roomType :: "string option"
  ck_rate :: pyfloat
  ck_adults :: int
  ck_children :: int
  ck_advance :: pyfloat
  ck_mode :: "string option"
  ck_remarks :: "string option"
  ck_createdAt :: stamp
  ck_created_at :: stamp
  ck_status :: string
  ck_updated_at :: "datetime option"

record order_doc = Order +
  od_oid :: nat
  od_updated_at :: "datetime option"

record bill_doc = Bill +
  bl_oid :: nat
  bl_updated_at :: "datetime option"

record db =
  db_checkin :: "checkin_doc list"
  db_order :: "order_doc list"
  db_bill :: "bill_doc list"
  db_next :: nat

text \<open>What a handler reads from outside the store: the clock, the operating
  system's random bytes (\<^verbatim>\<open>os.urandom(4)\<close>), and the standard library's
  \<^verbatim>\<open>datetime.fromisoformat\<close> (\<open>None\<close> where it raises).\<close>

record env =
  now :: int
  urandom4 :: "8 word list"
  fromisoformat :: "string \<Rightarrow> datetime option"

section \<open>The document store\<close>

text \<open>
  Modelled from the spec: \<^verbatim>\<open>database.py\<close> (\<^verbatim>\<open>db\<close>, \<^verbatim>\<open>create_document\<close>) is not
  among the sources. Section 2 of the specification gives the adapter as
  \<^verbatim>\<open>insert(collection, doc) -> id\<close>, \<^verbatim>\<open>find\<close>, \<^verbatim>\<open>find_one\<close>, \<^verbatim>\<open>update_one\<close>,
  \<^verbatim>\<open>update_many\<close> with equality filters and \<^verbatim>\<open>$set\<close> partial updates. A
  collection is the list of its documents in insertion order; \<open>insert\<close> appends the
  document under a fresh identifier; \<open>find_one\<close> and \<open>update_one\<close> act on the first
  match; \<open>update_many\<close> acts on every match.
\<close>

definition find_one :: "('d \<Rightarrow> bool) \<Rightarrow> 'd list \<Rightarrow> 'd option" where
  "find_one flt coll = List.find flt coll"

definition find_many :: "('d \<Rightarrow> bool) \<Rightarrow> 'd list \<Rightarrow> 'd list" where
  "find_many flt coll = filter flt coll"

fun update_one :: "('d \<Rightarrow> bool) \<Rightarrow> ('d \<Rightarrow> 'd) \<Rightarrow> 'd list \<Rightarrow> 'd list" where
  "update_one flt upd [] = []"
| "update_one flt upd (d # ds) = (if flt d then upd d # ds else d # update_one flt upd ds)"

definition matched_count :: "('d \<Rightarrow> bool) \<Rightarrow> 'd list \<Rightarrow> nat" where
  "matched_count flt coll = (if \<exists>d \<in> set coll. flt d then 1 else 0)"

definition update_many :: "('d \<Rightarrow> bool) \<Rightarrow> ('d \<Rightarrow> 'd) \<Rightarrow> 'd list \<Rightarrow> 'd list" where
  "update_many flt upd coll = map (\<lambda>d. if flt d then upd d else d) coll"

text \<open>\<^verbatim>\<open>create_document\<close>, one instance per collection.\<close>

definition checkin_document :: "nat \<Rightarrow> checkin_doc \<Rightarrow> checkin_doc" where
  "checkin_document i data = data\<lparr>ck_oid := i\<rparr>"

definition create_document_checkin :: "checkin_doc \<Rightarrow> db \<Rightarrow> nat \<times> db" where
  "create_document_checkin data s =
     (db_next s,
      s\<lparr>db_checkin := db_checkin s @ [checkin_document (db_next s) data],
        db_next := Suc (db_next s)\<rparr>)"

definition order_document :: "nat \<Rightarrow> Order \<Rightarrow> order_doc" where
  "order_document i data = Order.extend data \<lparr>od_oid = i, od_updated_at = None\<rparr>"

definition create_document_order :: "Order \<Rightarrow> db \<Rightarrow> nat \<times> db" where
  "create_document_order data s =
     (db_next s,
      s\<lparr>db_order := db_order s @ [order_document (db_next s) data],
        db_next := Suc (db_next s)\<rparr>)"

definition bill_document :: "nat \<Rightarrow> Bill \<Rightarrow> bill_doc" where
  "bill_document i data = Bill.extend data \<lparr>bl_oid = i, bl_updated_at = None\<rparr>"

definition create_document_bill :: "Bill \<Rightarrow> db \<Rightarrow> nat \<times> db" where
  "create_document_bill data s =
     (db_next s,
      s\<lparr>db_bill := db_bill s @ [bill_document (db_next s) data],
        db_next := Suc (db_next s)\<rparr>)"

section \<open>Python built-ins used by the handlers\<close>

text \<open>Truthiness of a value read from a document: a datetime is always true, a
  string is true unless empty, \<^verbatim>\<open>None\<close> is false.\<close>

fun truthy :: "stamp \<Rightarrow> bool" where
  "truthy (Stamp d) = True"
| "truthy (Text s) = (s \<noteq> [])"
| "truthy Null = False"

text \<open>\<^verbatim>\<open>round(x)\<close> on a float: to the nearest integer, a tie going to the even
  neighbour.\<close>

definition py_round :: "pyfloat \<Rightarrow> int" where
  "py_round x =
     (let f = \<lfloor>x\<rfloor>; r = x - of_int f
      in if r < 1/2 then f
         else if 1/2 < r then f + 1
         else if even f then f else f + 1)"

text \<open>\<^verbatim>\<open>bytes.hex()\<close> and \<^verbatim>\<open>str.upper()\<close>.\<close>

definition hex_digit :: "nat \<Rightarrow> char" where
  "hex_digit n = ''0123456789abcdef'' ! n"

definition hex :: "8 word list \<Rightarrow> string" where
  "hex bs = concat (map (\<lambda>b. [hex_digit (unat b div 16), hex_digit (unat b mod 16)]) bs)"

definition upper_char :: "char \<Rightarrow> char" where
  "upper_char c =
     (let n = (of_char c :: nat) in if 97 \<le> n \<and> n \<le> 122 then char_of (n - 32) else c)"

definition upper :: "string \<Rightarrow> string" where
  "upper s = map upper_char s"

section \<open>main.py: the handlers\<close>

subsection \<open>Check-ins\<close>

text \<open>\<^verbatim>\<open>payload.model_dump()\<close>: the dictionary that \<^verbatim>\<open>create_checkin\<close> goes on to
  edit. It has no \<^verbatim>\<open>_id\<close> yet (the store assigns it), and no \<^verbatim>\<open>created_at\<close> or
  \<^verbatim>\<open>updated_at\<close> key.\<close>

definition model_dump :: "Checkin \<Rightarrow> checkin_doc" where
  "model_dump p =
     \<lparr>ck_oid = 0, ck_name = ci_name p, ck_phone = ci_phone p, ck_idtype = ci_idtype p,
      ck_id = ci_id p, ck_address = ci_address p, ck_room = ci_room p,
      ck_roomType = ci_roomType p, ck_rate = ci_rate p, ck_adults = ci_adults p,
      ck_children = ci_children p, ck_advance = ci_advance p, ck_mode = ci_mode p,
      ck_remarks = ci_remarks p,
      ck_createdAt = (case ci_createdAt p of None \<Rightarrow> Null | Some d \<Rightarrow> Stamp d),
      ck_created_at = Null, ck_status = ci_status p, ck_updated_at = None\<rparr>"

definition room_occupied :: "string \<Rightarrow> checkin_doc \<Rightarrow> bool" where
  "room_occupied room d \<longleftrightarrow> ck_room d = room \<and> ck_status d = ''Occupied''"

definition create_checkin :: "env \<Rightarrow> Checkin \<Rightarrow> db \<Rightarrow> (error + nat) \<times> db" where
  "create_checkin e payload s =
     (let data = model_dump payload;
          data = (if \<not> truthy (ck_createdAt data)
                  then data\<lparr>ck_createdAt := Stamp (Aware (now e))\<rparr> else data);
          data = data\<lparr>ck_status :=
                   (if ck_status data \<noteq> [] then ck_status data else ''Occupied'')\<rparr>;
          existing = find_one (room_occupied (ck_room data)) (db_checkin s)
      in case existing of
           Some d \<Rightarrow> (Inl (HTTPException 400 ''Room is already occupied''), s)
         | None \<Rightarrow>
             (case create_document_checkin data s of (new_id, s') \<Rightarrow> (Inr new_id, s')))"

subsection \<open>Orders\<close>

text \<open>\<^verbatim>\<open>sum(it["qty"] * it["price"] for it in items)\<close>\<close>

definition items_sum :: "OrderItem list \<Rightarrow> pyfloat" where
  "items_sum its = sum_list (map (\<lambda>it. of_int (it_qty it) * it_price it) its)"

text \<open>\<^verbatim>\<open>a or b\<close> on numbers: \<^verbatim>\<open>a\<close> unless it is zero.\<close>

definition num_or :: "pyfloat \<Rightarrow> pyfloat \<Rightarrow> pyfloat" where
  "num_or a b = (if a \<noteq> 0 then a else b)"

definition create_order :: "env \<Rightarrow> Order \<Rightarrow> db \<Rightarrow> (error + nat) \<times> db" where
  "create_order e payload s =
     (let data = payload;
          data = (if od_createdAt data = None
                  then data\<lparr>od_createdAt := Some (Aware (now e))\<rparr> else data);
          data = (if od_items data \<noteq> []
                  then data\<lparr>od_total := num_or (items_sum (od_items data)) (od_total data)\<rparr>
                  else data)
      in case create_document_order data s of (new_id, s') \<Rightarrow> (Inr new_id, s'))"

subsection \<open>Bills\<close>

definition has_bill_id :: "string \<Rightarrow> bill_doc \<Rightarrow> bool" where
  "has_bill_id bill_id b \<longleftrightarrow> bl_id b = bill_id"

definition set_paid :: "env \<Rightarrow> string \<Rightarrow> bill_doc \<Rightarrow> bill_doc" where
  "set_paid e m b = b\<lparr>bl_status := ''Paid'', bl_mode := m, bl_updated_at := Some (Aware (now e))\<rparr>"

definition mark_bill_paid :: "env \<Rightarrow> string \<Rightarrow> PayRequest \<Rightarrow> db \<Rightarrow> (error + unit) \<times> db" where
  "mark_bill_paid e bill_id payload s =
     (let res = matched_count (has_bill_id bill_id) (db_bill s);
          s' = s\<lparr>db_bill :=
                 update_one (has_bill_id bill_id) (set_paid e (pr_mode payload)) (db_bill s)\<rparr>
      in if res = 0 then (Inl (HTTPException 404 ''Bill not found''), s')
         else (Inr (), s'))"

subsection \<open>Checkout\<close>

definition active_checkin :: "CheckoutRequest \<Rightarrow> checkin_doc \<Rightarrow> bool" where
  "active_checkin req d \<longleftrightarrow>
     ck_room d = rq_room req \<and> ck_phone d = rq_phone req \<and> ck_status d = ''Occupied''"

text \<open>Line 123: \<^verbatim>\<open>c.get("createdAt") or c.get("created_at")\<close>.\<close>

definition created_at :: "checkin_doc \<Rightarrow> stamp" where
  "created_at c = (if truthy (ck_createdAt c) then ck_createdAt c else ck_created_at c)"

text \<open>Lines 124 to 127: a datetime is taken as it is, anything else is printed and
  parsed; where parsing raises (as it does on \<^verbatim>\<open>str(None)\<close>), the start is the
  current time.\<close>

definition start_dt :: "env \<Rightarrow> checkin_doc \<Rightarrow> datetime" where
  "start_dt e c =
     (case created_at c of
        Stamp d \<Rightarrow> d
      | Text t \<Rightarrow> (case fromisoformat e t of Some d \<Rightarrow> d | None \<Rightarrow> Aware (now e))
      | Null \<Rightarrow> Aware (now e))"

text \<open>Line 128. Subtracting a naive datetime from the aware current time raises
  \<^verbatim>\<open>TypeError\<close>, outside the \<^verbatim>\<open>try\<close>. \<^verbatim>\<open>total_seconds() // 86400\<close> is the floor of
  the elapsed microseconds over the microseconds of a day.\<close>

definition nights_of :: "env \<Rightarrow> checkin_doc \<Rightarrow> error + int" where
  "nights_of e c =
     (case start_dt e c of
        Naive t \<Rightarrow> Inl TypeError
      | Aware t \<Rightarrow> Inr (max 1 ((now e - t) div 86400000000 + 1)))"

text \<open>Line 134: the unpaid in-house orders of the room.\<close>

definition unpaid_inhouse :: "string \<Rightarrow> order_doc \<Rightarrow> bool" where
  "unpaid_inhouse room od \<longleftrightarrow>
     od_type od = ''inhouse'' \<and> od_room od = Some room \<and> od_status od = ''Unpaid''"

text \<open>Lines 130 to 157: the arithmetic and the \<^verbatim>\<open>Bill\<close> built from it.\<close>

definition make_bill :: "env \<Rightarrow> checkin_doc \<Rightarrow> int \<Rightarrow> order_doc list \<Rightarrow> Bill" where
  "make_bill e c nights orders =
     (let rate = ck_rate c;
          room_charges = of_int nights * rate;
          food_total = sum_list (map od_total orders);
          tax_rate = 12 / 100;
          subtotal = room_charges + food_total;
          tax = py_round (subtotal * tax_rate);
          grand = subtotal + of_int tax - ck_advance c
      in \<lparr>bl_id = ''BILL-'' @ upper (hex (urandom4 e)),
          bl_guest = ck_name c, bl_phone = ck_phone c, bl_room = ck_room c,
          bl_nights = nights, bl_roomCharges = room_charges, bl_foodTotal = food_total,
          bl_advance = ck_advance c, bl_tax = of_int tax, bl_total = grand,
          bl_status = ''Unpaid'', bl_mode = ''Cash'',
          bl_createdAt = Some (Aware (now e))\<rparr>)"

definition set_synced :: "env \<Rightarrow> order_doc \<Rightarrow> order_doc" where
  "set_synced e od = od\<lparr>od_synced := Some True, od_updated_at := Some (Aware (now e))\<rparr>"

definition set_checked_out :: "env \<Rightarrow> checkin_doc \<Rightarrow> checkin_doc" where
  "set_checked_out e d =
     d\<lparr>ck_status := ''Checked-out'', ck_updated_at := Some (Aware (now e))\<rparr>"

definition create_final_bill :: "env \<Rightarrow> CheckoutRequest \<Rightarrow> db \<Rightarrow> (error + string) \<times> db" where
  "create_final_bill e req s =
     (case find_one (active_checkin req) (db_checkin s) of
        None \<Rightarrow> (Inl (HTTPException 404 ''Active check-in not found''), s)
      | Some c \<Rightarrow>
          (case nights_of e c of
             Inl err \<Rightarrow> (Inl err, s)
           | Inr nights \<Rightarrow>
               (let orders = find_many (unpaid_inhouse (rq_room req)) (db_order s);
                    bill = make_bill e c nights orders;
                    s1 = snd (create_document_bill bill s);
                    s2 = s1\<lparr>db_order :=
                           update_many (\<lambda>od. od_oid od \<in> set (map od_oid orders))
                             (set_synced e) (db_order s1)\<rparr>;
                    s3 = s2\<lparr>db_checkin :=
                           update_one (\<lambda>d. ck_oid d = ck_oid c)
                             (set_checked_out e) (db_checkin s2)\<rparr>
                in (Inr (bl_id bill), s3))))"

section \<open>Well-formed stores\<close>

text \<open>The store assigns identifiers itself: within a collection they are
  distinct, and all of them are below the next one to be assigned.\<close>

definition wf_db :: "db \<Rightarrow> bool" where
  "wf_db s \<longleftrightarrow>
     distinct (map ck_oid (db_checkin s)) \<and> distinct (map od_oid (db_order s))
     \<and> distinct (map bl_oid (db_bill s))
     \<and> (\<forall>i \<in> set (map ck_oid (db_checkin s)). i < db_next s)
     \<and> (\<forall>i \<in> set (map od_oid (db_order s)). i < db_next s)
     \<and> (\<forall>i \<in> set (map bl_oid (db_bill s)). i < db_next s)"

definition empty_db :: db where
  "empty_db = \<lparr>db_checkin = [], db_order = [], db_bill = [], db_next = 0\<rparr>"

section \<open>A worked example\<close>

text \<open>One guest in room 101 since time 0, checking out 25 hours later. Room 101
  has one unpaid in-house order and one paid one; room 102 has an unpaid one.\<close>

definition ex_env :: env where
  "ex_env = \<lparr>now = 90000000000, urandom4 = [0xA3, 0x0F, 0x00, 0xFF],
             fromisoformat = (\<lambda>t. None)\<rparr>"

definition ex_checkin :: checkin_doc where
  "ex_checkin =
     \<lparr>ck_oid = 0, ck_name = ''Ann'', ck_phone = ''555'', ck_idtype = None, ck_id = None,
      ck_address = None, ck_room = ''101'', ck_roomType = None, ck_rate = 1000,
      ck_adults = 1, ck_children = 0, ck_advance = 200, ck_mode = Some ''Cash'',
      ck_remarks = None, ck_createdAt = Stamp (Aware 0), ck_created_at = Null,
      ck_status = ''Occupied'', ck_updated_at = None\<rparr>"

definition ex_order :: order_doc where
  "ex_order =
     \<lparr>od_type = ''inhouse'', od_room = Some ''101'', od_name = None, od_phone = ''777'',
      od_items = [], od_total = 150, od_status = ''Unpaid'', od_mode = ''Cash'',
      od_createdAt = Some (Aware 10), od_synced = Some False,
      od_oid = 1, od_updated_at = None\<rparr>"

definition ex_order_paid :: order_doc where
  "ex_order_paid =
     \<lparr>od_type = ''inhouse'', od_room = Some ''101'', od_name = None, od_phone = ''555'',
      od_items = [], od_total = 70, od_status = ''Paid'', od_mode = ''Cash'',
      od_createdAt = Some (Aware 20), od_synced = Some False,
      od_oid = 2, od_updated_at = None\<rparr>"

definition ex_order_other :: order_doc where
  "ex_order_other =
     \<lparr>od_type = ''inhouse'', od_room = Some ''102'', od_name = None, od_phone = ''555'',
      od_items = [], od_total = 40, od_status = ''Unpaid'', od_mode = ''Cash'',
      od_createdAt = Some (Aware 30), od_synced = Some False,
      od_oid = 3, od_updated_at = None\<rparr>"

definition ex_old_bill :: bill_doc where
  "ex_old_bill =
     \<lparr>bl_id = ''BILL-0000ABCD'', bl_guest = ''Bob'', bl_phone = ''444'', bl_room = ''101'',
      bl_nights = 1, bl_roomCharges = 1000, bl_foodTotal = 0, bl_advance = 0,
      bl_tax = 120, bl_total = 1120, bl_status = ''Paid'', bl_mode = ''Cash'',
      bl_createdAt = Some (Aware 5), bl_oid = 4, bl_updated_at = Some (Aware 6)\<rparr>"

definition ex_db :: db where
  "ex_db = \<lparr>db_checkin = [ex_checkin],
            db_order = [ex_order, ex_order_paid, ex_order_other],
            db_bill = [ex_old_bill], db_next = 5\<rparr>"

definition ex_req :: CheckoutRequest where
  "ex_req = \<lparr>rq_room = ''101'', rq_phone = ''555''\<rparr>"

text \<open>The bill and the store that the checkout of \<open>ex_req\<close> leaves.\<close>

definition ex_bill :: bill_doc where
  "ex_bill =
     \<lparr>bl_id = ''BILL-A30F00FF'', bl_guest = ''Ann'', bl_phone = ''555'', bl_room = ''101'',
      bl_nights = 2, bl_roomCharges = 2000, bl_foodTotal = 150, bl_advance = 200,
      bl_tax = 258, bl_total = 2208, bl_status = ''Unpaid'', bl_mode = ''Cash'',
      bl_createdAt = Some (Aware 90000000000), bl_oid = 5, bl_updated_at = None\<rparr>"

definition ex_db_after :: db where
  "ex_db_after =
     \<lparr>db_checkin = [ex_checkin\<lparr>ck_status := ''Checked-out'',
                                ck_updated_at := Some (Aware 90000000000)\<rparr>],
      db_order = [ex_order\<lparr>od_synced := Some True,
                            od_updated_at := Some (Aware 90000000000)\<rparr>,
                  ex_order_paid, ex_order_other],
      db_bill = [ex_old_bill, ex_bill], db_next = 6\<rparr>"

text \<open>A check-in request for room 101, with no status and no creation time.\<close>

definition ex_payload :: Checkin where
  "ex_payload =
     \<lparr>ci_name = ''Cy'', ci_phone = ''666'', ci_idtype = None, ci_id = None,
      ci_address = None, ci_room = ''101'', ci_roomType = None, ci_rate = 800,
      ci_adults = 2, ci_children = 0, ci_advance = 0, ci_mode = Some ''Card'',
      ci_remarks = None, ci_createdAt = None, ci_status = []\<rparr>"





definition ex_db_next :: db where
  "ex_db_next = snd (create_checkin ex_env ex_payload ex_db_after)"

definition ex_req_next :: CheckoutRequest where
  "ex_req_next = \<lparr>rq_room = ''101'', rq_phone = ''666''\<rparr>"

section \<open>Facts about the store operations\<close>

lemma find_one_None_iff: "find_one flt coll = None \<longleftrightarrow> (\<forall>d \<in> set coll. \<not> flt d)"
  by (auto simp: find_one_def find_None_iff)

lemma find_one_split:
  "find_one flt coll = Some d \<longleftrightarrow>
     (\<exists>pre post. coll = pre @ d # post \<and> flt d \<and> (\<forall>x \<in> set pre. \<not> flt x))"
proof (induction coll)
  case Nil
  show ?case by (simp add: find_one_def)
next
  case (Cons a coll)
  show ?case
  proof (cases "flt a")
    case True
    have "(\<exists>pre post. a # coll = pre @ d # post \<and> flt d \<and> (\<forall>x \<in> set pre. \<not> flt x)) \<longleftrightarrow> a = d"
    proof
      assume "\<exists>pre post. a # coll = pre @ d # post \<and> flt d \<and> (\<forall>x \<in> set pre. \<not> flt x)"
      then obtain pre post where h: "a # coll = pre @ d # post" "\<forall>x \<in> set pre. \<not> flt x" by blast
      show "a = d"
      proof (cases pre)
        case Nil
        with h show ?thesis by simp
      next
        case (Cons p ps)
        with h True show ?thesis by auto
      qed
    next
      assume "a = d"
      with True have "a # coll = [] @ d # coll \<and> flt d \<and> (\<forall>x \<in> set []. \<not> flt x)" by simp
      then show "\<exists>pre post. a # coll = pre @ d # post \<and> flt d \<and> (\<forall>x \<in> set pre. \<not> flt x)" by blast
    qed
    with True show ?thesis by (simp add: find_one_def)
  next
    case False
    have "(\<exists>pre post. a # coll = pre @ d # post \<and> flt d \<and> (\<forall>x \<in> set pre. \<not> flt x)) \<longleftrightarrow>
          (\<exists>pre post. coll = pre @ d # post \<and> flt d \<and> (\<forall>x \<in> set pre. \<not> flt x))"
    proof
      assume "\<exists>pre post. a # coll = pre @ d # post \<and> flt d \<and> (\<forall>x \<in> set pre. \<not> flt x)"
      then obtain pre post where h: "a # coll = pre @ d # post" "flt d" "\<forall>x \<in> set pre. \<not> flt x" by blast
      show "\<exists>pre post. coll = pre @ d # post \<and> flt d \<and> (\<forall>x \<in> set pre. \<not> flt x)"
      proof (cases pre)
        case Nil
        with h False show ?thesis by simp
      next
        case (Cons p ps)
        with h have "coll = ps @ d # post \<and> flt d \<and> (\<forall>x \<in> set ps. \<not> flt x)" by simp
        then show ?thesis by blast
      qed
    next
      assume "\<exists>pre post. coll = pre @ d # post \<and> flt d \<and> (\<forall>x \<in> set pre. \<not> flt x)"
      then obtain pre post where h: "coll = pre @ d # post" "flt d" "\<forall>x \<in> set pre. \<not> flt x" by blast
      with False have "a # coll = (a # pre) @ d # post \<and> flt d \<and> (\<forall>x \<in> set (a # pre). \<not> flt x)" by simp
      then show "\<exists>pre post. a # coll = pre @ d # post \<and> flt d \<and> (\<forall>x \<in> set pre. \<not> flt x)" by blast
    qed
    with False Cons.IH show ?thesis by (simp add: find_one_def)
  qed
qed

lemma update_one_no_match: "\<forall>d \<in> set coll. \<not> flt d \<Longrightarrow> update_one flt upd coll = coll"
  by (induction coll) auto

lemma update_one_split:
  "\<forall>x \<in> set pre. \<not> flt x \<Longrightarrow> flt d \<Longrightarrow>
     update_one flt upd (pre @ d # post) = pre @ upd d # post"
  by (induction pre) auto

lemma length_update_one [simp]: "length (update_one flt upd coll) = length coll"
  by (induction coll) auto

section \<open>Facts about rounding\<close>


lemma py_round_tie:
  assumes "\<bar>of_int (py_round x) - x\<bar> = 1/2"
  shows "even (py_round x)"
proof -
  define r where "r = x - of_int \<lfloor>x\<rfloor>"
  have r: "0 \<le> r" "r < 1" unfolding r_def by linarith+
  have x: "x = of_int \<lfloor>x\<rfloor> + r" by (simp add: r_def)
  consider "r < 1/2" | "1/2 < r" | "r = 1/2" by linarith
  then show ?thesis
  proof cases
    case 1
    then have "py_round x = \<lfloor>x\<rfloor>" by (simp add: py_round_def r_def)
    with assms x 1 r show ?thesis by (simp add: abs_if split: if_splits)
  next
    case 2
    then have "py_round x = \<lfloor>x\<rfloor> + 1" by (simp add: py_round_def r_def)
    with assms x 2 r show ?thesis by (simp add: abs_if split: if_splits)
  next
    case 3
    then show ?thesis by (simp add: py_round_def r_def Let_def)
  qed
qed

section \<open>What a successful checkout leaves\<close>

lemma create_final_bill_success:
  assumes "create_final_bill e req s = (Inr bid, s')"
  obtains c t where
    "find_one (active_checkin req) (db_checkin s) = Some c"
    "start_dt e c = Aware t"
    "nights_of e c = Inr (max 1 ((now e - t) div 86400000000 + 1))"
    "bid = bl_id (make_bill e c (max 1 ((now e - t) div 86400000000 + 1))
             (filter (unpaid_inhouse (rq_room req)) (db_order s)))"
    "db_bill s' = db_bill s @ [bill_document (db_next s)
        (make_bill e c (max 1 ((now e - t) div 86400000000 + 1))
             (filter (unpaid_inhouse (rq_room req)) (db_order s)))]"
    "db_order s' = update_many
        (\<lambda>od. od_oid od \<in> od_oid ` set (filter (unpaid_inhouse (rq_room req)) (db_order s)))
        (set_synced e) (db_order s)"
    "db_checkin s' = update_one (\<lambda>d. ck_oid d = ck_oid c) (set_checked_out e) (db_checkin s)"
    "db_next s' = Suc (db_next s)"
  using assms
  by (auto simp: create_final_bill_def nights_of_def Let_def find_many_def create_document_bill_def
           split: option.splits sum.splits datetime.splits)


lemma ex_checkout: "create_final_bill ex_env ex_req ex_db = (Inr ''BILL-A30F00FF'', ex_db_after)"
  by code_simp


lemma update_one_first:
  assumes "\<exists>d \<in> set coll. flt d"
  shows "\<exists>pre d post. coll = pre @ d # post \<and> (\<forall>x \<in> set pre. \<not> flt x) \<and> flt d \<and>
           update_one flt upd coll = pre @ upd d # post"
proof -
  from assms obtain d where "find_one flt coll = Some d"
    by (cases "find_one flt coll") (auto simp: find_one_None_iff)
  then obtain pre post where h: "coll = pre @ d # post" "flt d" "\<forall>x \<in> set pre. \<not> flt x"
    by (auto simp: find_one_split)
  then have "update_one flt upd coll = pre @ upd d # post"
    by (simp add: update_one_split)
  with h show ?thesis by blast
qed

section \<open>Checkout without an active check-in\<close>

text \<open>
  Claim C7. A checkout request whose room and phone match no check-in with status
  Occupied fails with the HTTP 404 exception and writes nothing: the store after the
  call is the store before it (no bill, no order marked synced, no check-in changed).
\<close>

theorem checkout_not_found:
  assumes "\<forall>d \<in> set (db_checkin s).
             \<not> (ck_room d = rq_room req \<and> ck_phone d = rq_phone req \<and> ck_status d = ''Occupied'')"
  shows "create_final_bill e req s = (Inl (HTTPException 404 ''Active check-in not found''), s)"
proof -
  have "find_one (active_checkin req) (db_checkin s) = None"
    using assms by (simp add: find_one_None_iff active_checkin_def)
  then show ?thesis by (simp add: create_final_bill_def)
qed

theorem checkout_not_found_witness:
  "create_final_bill ex_env \<lparr>rq_room = ''101'', rq_phone = ''000''\<rparr> ex_db
     = (Inl (HTTPException 404 ''Active check-in not found''), ex_db)"
proof -
  have "\<forall>d \<in> set (db_checkin ex_db).
          \<not> (ck_room d = rq_room \<lparr>rq_room = ''101'', rq_phone = ''000''\<rparr>
             \<and> ck_phone d = rq_phone \<lparr>rq_room = ''101'', rq_phone = ''000''\<rparr>
             \<and> ck_status d = ''Occupied'')"
    by (simp add: ex_db_def ex_checkin_def)
  then show ?thesis by (rule checkout_not_found)
qed

section \<open>Paying a bill\<close>

text \<open>
  Claim C8. Paying fails with the HTTP 404 exception exactly when no stored bill has
  the given business identifier, and then the store is unchanged. Otherwise it
  succeeds, whatever the bill's status was: the first bill with that identifier gets
  status Paid, the supplied mode and the current time as its update stamp, and
  nothing else in the store changes.
\<close>

theorem pay_bill:
  "(fst (mark_bill_paid e bill_id payload s) = Inl (HTTPException 404 ''Bill not found'')
      \<longleftrightarrow> \<not> (\<exists>b \<in> set (db_bill s). bl_id b = bill_id))
   \<and> (\<not> (\<exists>b \<in> set (db_bill s). bl_id b = bill_id)
        \<longrightarrow> snd (mark_bill_paid e bill_id payload s) = s)
   \<and> ((\<exists>b \<in> set (db_bill s). bl_id b = bill_id) \<longrightarrow>
        fst (mark_bill_paid e bill_id payload s) = Inr ()
        \<and> (\<exists>pre b post.
              db_bill s = pre @ b # post \<and> (\<forall>x \<in> set pre. bl_id x \<noteq> bill_id) \<and> bl_id b = bill_id
              \<and> snd (mark_bill_paid e bill_id payload s)
                  = s\<lparr>db_bill := pre @ b\<lparr>bl_status := ''Paid'', bl_mode := pr_mode payload,
                                            bl_updated_at := Some (Aware (now e))\<rparr> # post\<rparr>))"
proof (cases "\<exists>b \<in> set (db_bill s). bl_id b = bill_id")
  case False
  then have none: "\<forall>b \<in> set (db_bill s). \<not> has_bill_id bill_id b"
    by (simp add: has_bill_id_def)
  then have "update_one (has_bill_id bill_id) (set_paid e (pr_mode payload)) (db_bill s) = db_bill s"
    by (rule update_one_no_match)
  moreover from none have "matched_count (has_bill_id bill_id) (db_bill s) = 0"
    by (simp add: matched_count_def)
  ultimately have "mark_bill_paid e bill_id payload s = (Inl (HTTPException 404 ''Bill not found''), s)"
    by (simp add: mark_bill_paid_def)
  with False show ?thesis by simp
next
  case True
  then have some: "\<exists>b \<in> set (db_bill s). has_bill_id bill_id b"
    by (simp add: has_bill_id_def)
  then have mc: "matched_count (has_bill_id bill_id) (db_bill s) = 1"
    by (simp add: matched_count_def)
  from update_one_first [OF some, of "set_paid e (pr_mode payload)"]
  obtain pre b post where h: "db_bill s = pre @ b # post" "\<forall>x \<in> set pre. \<not> has_bill_id bill_id x"
    "has_bill_id bill_id b"
    "update_one (has_bill_id bill_id) (set_paid e (pr_mode payload)) (db_bill s)
       = pre @ set_paid e (pr_mode payload) b # post"
    by blast
  have r: "mark_bill_paid e bill_id payload s
        = (Inr (), s\<lparr>db_bill := pre @ set_paid e (pr_mode payload) b # post\<rparr>)"
    using mc h(4) by (simp add: mark_bill_paid_def)
  have "db_bill s = pre @ b # post \<and> (\<forall>x \<in> set pre. bl_id x \<noteq> bill_id) \<and> bl_id b = bill_id
      \<and> snd (mark_bill_paid e bill_id payload s)
          = s\<lparr>db_bill := pre @ b\<lparr>bl_status := ''Paid'', bl_mode := pr_mode payload,
                                    bl_updated_at := Some (Aware (now e))\<rparr> # post\<rparr>"
    using h(1,2,3) r by (simp add: has_bill_id_def set_paid_def)
  then have "\<exists>pre b post. db_bill s = pre @ b # post \<and> (\<forall>x \<in> set pre. bl_id x \<noteq> bill_id)
      \<and> bl_id b = bill_id
      \<and> snd (mark_bill_paid e bill_id payload s)
          = s\<lparr>db_bill := pre @ b\<lparr>bl_status := ''Paid'', bl_mode := pr_mode payload,
                                    bl_updated_at := Some (Aware (now e))\<rparr> # post\<rparr>"
    by blast
  with True r show ?thesis by simp
qed

theorem pay_bill_witness:
  "mark_bill_paid ex_env ''BILL-0000ABCD'' \<lparr>pr_mode = ''UPI''\<rparr> ex_db
     = (Inr (), ex_db\<lparr>db_bill := [ex_old_bill\<lparr>bl_status := ''Paid'', bl_mode := ''UPI'',
                                     bl_updated_at := Some (Aware 90000000000)\<rparr>]\<rparr>)
   \<and> mark_bill_paid ex_env ''BILL-FFFFFFFF'' \<lparr>pr_mode = ''UPI''\<rparr> ex_db
     = (Inl (HTTPException 404 ''Bill not found''), ex_db)"
proof -
  have a: "\<exists>b \<in> set (db_bill ex_db). bl_id b = ''BILL-0000ABCD''"
    by (simp add: ex_db_def ex_old_bill_def)
  have b: "\<not> (\<exists>b \<in> set (db_bill ex_db). bl_id b = ''BILL-FFFFFFFF'')"
    by (simp add: ex_db_def ex_old_bill_def)
  from a pay_bill [of ex_env "''BILL-0000ABCD''" "\<lparr>pr_mode = ''UPI''\<rparr>" ex_db]
  obtain pre b post where h: "db_bill ex_db = pre @ b # post"
    "fst (mark_bill_paid ex_env ''BILL-0000ABCD'' \<lparr>pr_mode = ''UPI''\<rparr> ex_db) = Inr ()"
    "snd (mark_bill_paid ex_env ''BILL-0000ABCD'' \<lparr>pr_mode = ''UPI''\<rparr> ex_db)
       = ex_db\<lparr>db_bill := pre @ b\<lparr>bl_status := ''Paid'', bl_mode := pr_mode \<lparr>pr_mode = ''UPI''\<rparr>,
                             bl_updated_at := Some (Aware (now ex_env))\<rparr> # post\<rparr>"
    by blast
  from h(1) have "pre = [] \<and> b = ex_old_bill \<and> post = []"
    by (cases pre) (simp_all add: ex_db_def)
  with h(2,3) have 1: "mark_bill_paid ex_env ''BILL-0000ABCD'' \<lparr>pr_mode = ''UPI''\<rparr> ex_db
     = (Inr (), ex_db\<lparr>db_bill := [ex_old_bill\<lparr>bl_status := ''Paid'', bl_mode := ''UPI'',
                                     bl_updated_at := Some (Aware 90000000000)\<rparr>]\<rparr>)"
    by (simp add: prod_eq_iff ex_env_def)
  from b pay_bill [of ex_env "''BILL-FFFFFFFF''" "\<lparr>pr_mode = ''UPI''\<rparr>" ex_db]
  have 2: "mark_bill_paid ex_env ''BILL-FFFFFFFF'' \<lparr>pr_mode = ''UPI''\<rparr> ex_db
     = (Inl (HTTPException 404 ''Bill not found''), ex_db)"
    by (simp add: prod_eq_iff)
  from 1 2 show ?thesis by simp
qed

section \<open>Creating a check-in\<close>

text \<open>
  Claim C6. A check-in request for a room that already has a stored check-in with
  status Occupied fails with the HTTP 400 exception and leaves the store as it was.
  If the room has no such check-in, the request is persisted as one new document at
  the end of the collection, carrying the request's fields, a defaulted status and
  creation time, and the identifier that is returned.
\<close>

theorem create_checkin_conflict:
  "((\<exists>d \<in> set (db_checkin s). ck_room d = ci_room payload \<and> ck_status d = ''Occupied'') \<longrightarrow>
      create_checkin e payload s = (Inl (HTTPException 400 ''Room is already occupied''), s))
   \<and> (\<not> (\<exists>d \<in> set (db_checkin s). ck_room d = ci_room payload \<and> ck_status d = ''Occupied'') \<longrightarrow>
      (\<exists>d. create_checkin e payload s
              = (Inr (ck_oid d), s\<lparr>db_checkin := db_checkin s @ [d], db_next := Suc (db_next s)\<rparr>)
         \<and> ck_oid d = db_next s
         \<and> ck_name d = ci_name payload \<and> ck_phone d = ci_phone payload
         \<and> ck_room d = ci_room payload \<and> ck_rate d = ci_rate payload
         \<and> ck_advance d = ci_advance payload
         \<and> ck_status d = (if ci_status payload = [] then ''Occupied'' else ci_status payload)
         \<and> ck_createdAt d = (case ci_createdAt payload of
                                None \<Rightarrow> Stamp (Aware (now e)) | Some t \<Rightarrow> Stamp t)))"
proof (cases "\<exists>d \<in> set (db_checkin s). ck_room d = ci_room payload \<and> ck_status d = ''Occupied''")
  case True
  then have "find_one (room_occupied (ci_room payload)) (db_checkin s) \<noteq> None"
    by (simp add: find_one_None_iff room_occupied_def)
  then have "create_checkin e payload s = (Inl (HTTPException 400 ''Room is already occupied''), s)"
    by (auto simp: create_checkin_def model_dump_def Let_def split: option.splits)
  with True show ?thesis by simp
next
  case False
  then have none: "find_one (room_occupied (ci_room payload)) (db_checkin s) = None"
    by (simp add: find_one_None_iff room_occupied_def)
  define data where "data = (model_dump payload)\<lparr>ck_createdAt :=
      (case ci_createdAt payload of None \<Rightarrow> Stamp (Aware (now e)) | Some t \<Rightarrow> Stamp t),
      ck_status := (if ci_status payload = [] then ''Occupied'' else ci_status payload)\<rparr>"
  define d where "d = checkin_document (db_next s) data"
  have eq: "create_checkin e payload s
      = (Inr (ck_oid d), s\<lparr>db_checkin := db_checkin s @ [d], db_next := Suc (db_next s)\<rparr>)"
    using none
    by (cases "ci_createdAt payload")
       (simp_all add: create_checkin_def Let_def model_dump_def create_document_checkin_def
          checkin_document_def d_def data_def)
  have props: "ck_oid d = db_next s" "ck_name d = ci_name payload" "ck_phone d = ci_phone payload"
    "ck_room d = ci_room payload" "ck_rate d = ci_rate payload"
    "ck_advance d = ci_advance payload"
    "ck_status d = (if ci_status payload = [] then ''Occupied'' else ci_status payload)"
    "ck_createdAt d = (case ci_createdAt payload of
                         None \<Rightarrow> Stamp (Aware (now e)) | Some t \<Rightarrow> Stamp t)"
    by (simp_all add: d_def checkin_document_def data_def model_dump_def)
  from eq props False show ?thesis by blast
qed

lemma ex_checkin_conflict:
  "\<exists>d \<in> set (db_checkin ex_db). ck_room d = ci_room ex_payload \<and> ck_status d = ''Occupied''"
  by (simp add: ex_db_def ex_checkin_def ex_payload_def)

lemma ex_checkin_free:
  "\<not> (\<exists>d \<in> set (db_checkin ex_db_after). ck_room d = ci_room ex_payload \<and> ck_status d = ''Occupied'')"
  by (simp add: ex_db_after_def ex_checkin_def ex_payload_def)

theorem create_checkin_conflict_witness:
  "create_checkin ex_env ex_payload ex_db
     = (Inl (HTTPException 400 ''Room is already occupied''), ex_db)
   \<and> (\<exists>d. create_checkin ex_env ex_payload ex_db_after
              = (Inr (ck_oid d), ex_db_after\<lparr>db_checkin := db_checkin ex_db_after @ [d],
                                             db_next := Suc (db_next ex_db_after)\<rparr>)
         \<and> ck_oid d = 6 \<and> ck_room d = ''101'' \<and> ck_status d = ''Occupied'')"
proof -
  have 1: "create_checkin ex_env ex_payload ex_db
     = (Inl (HTTPException 400 ''Room is already occupied''), ex_db)"
    using create_checkin_conflict [of ex_db ex_payload ex_env] ex_checkin_conflict by blast
  from create_checkin_conflict [of ex_db_after ex_payload ex_env] ex_checkin_free
  obtain d where d: "create_checkin ex_env ex_payload ex_db_after
              = (Inr (ck_oid d), ex_db_after\<lparr>db_checkin := db_checkin ex_db_after @ [d],
                                             db_next := Suc (db_next ex_db_after)\<rparr>)"
    "ck_oid d = db_next ex_db_after" "ck_room d = ci_room ex_payload"
    "ck_status d = (if ci_status ex_payload = [] then ''Occupied'' else ci_status ex_payload)"
    by blast
  have "ck_oid d = 6" using d(2) by (simp add: ex_db_after_def)
  moreover have "ck_room d = ''101''" using d(3) by (simp add: ex_payload_def)
  moreover have "ck_status d = ''Occupied''" using d(4) by (simp add: ex_payload_def)
  ultimately show ?thesis using 1 d(1) by blast
qed

section \<open>Creating an order\<close>

lemma create_order_stores:
  "create_order e payload s
     = (Inr (db_next s),
        s\<lparr>db_order := db_order s @
             [order_document (db_next s)
                (payload\<lparr>od_createdAt :=
                           (if od_createdAt payload = None then Some (Aware (now e))
                            else od_createdAt payload),
                         od_total :=
                           (if od_items payload \<noteq> []
                            then num_or (items_sum (od_items payload)) (od_total payload)
                            else od_total payload)\<rparr>)],
          db_next := Suc (db_next s)\<rparr>)"
  by (simp add: create_order_def Let_def create_document_order_def)

lemma order_document_sel [simp]:
  "od_oid (order_document i data) = i"
  "od_items (order_document i data) = od_items data"
  "od_total (order_document i data) = od_total data"
  by (simp_all add: order_document_def Order.extend_def)






section \<open>The bill of a successful checkout\<close>

lemma create_final_bill_run:
  assumes "find_one (active_checkin req) (db_checkin s) = Some c"
    and "start_dt e c = Aware t"
  shows "create_final_bill e req s =
     (Inr (bl_id (make_bill e c (max 1 ((now e - t) div 86400000000 + 1))
                    (filter (unpaid_inhouse (rq_room req)) (db_order s)))),
      s\<lparr>db_bill := db_bill s @ [bill_document (db_next s)
            (make_bill e c (max 1 ((now e - t) div 86400000000 + 1))
               (filter (unpaid_inhouse (rq_room req)) (db_order s)))],
        db_next := Suc (db_next s),
        db_order := update_many
          (\<lambda>od. od_oid od \<in> od_oid ` set (filter (unpaid_inhouse (rq_room req)) (db_order s)))
          (set_synced e) (db_order s),
        db_checkin := update_one (\<lambda>d. ck_oid d = ck_oid c) (set_checked_out e) (db_checkin s)\<rparr>)"
  using assms
  by (simp add: create_final_bill_def nights_of_def Let_def find_many_def create_document_bill_def)

lemma bill_document_sel [simp]:
  "bl_id (bill_document i b) = bl_id b"
  "bl_nights (bill_document i b) = bl_nights b"
  "bl_roomCharges (bill_document i b) = bl_roomCharges b"
  "bl_foodTotal (bill_document i b) = bl_foodTotal b"
  "bl_advance (bill_document i b) = bl_advance b"
  "bl_tax (bill_document i b) = bl_tax b"
  "bl_total (bill_document i b) = bl_total b"
  "bl_status (bill_document i b) = bl_status b"
  "bl_mode (bill_document i b) = bl_mode b"
  by (simp_all add: bill_document_def Bill.extend_def)

lemma make_bill_sel:
  "bl_nights (make_bill e c n os) = n"
  "bl_roomCharges (make_bill e c n os) = of_int n * ck_rate c"
  "bl_foodTotal (make_bill e c n os) = sum_list (map od_total os)"
  "bl_advance (make_bill e c n os) = ck_advance c"
  "bl_tax (make_bill e c n os)
     = of_int (py_round ((of_int n * ck_rate c + sum_list (map od_total os)) * (12 / 100)))"
  "bl_total (make_bill e c n os)
     = of_int n * ck_rate c + sum_list (map od_total os)
       + of_int (py_round ((of_int n * ck_rate c + sum_list (map od_total os)) * (12 / 100)))
       - ck_advance c"
  "bl_status (make_bill e c n os) = ''Unpaid''"
  "bl_mode (make_bill e c n os) = ''Cash''"
  by (simp_all add: make_bill_def Let_def)



lemma ex_start: "find_one (active_checkin ex_req) (db_checkin ex_db) = Some ex_checkin"
  by (simp add: find_one_def active_checkin_def ex_req_def ex_db_def ex_checkin_def)





text \<open>
  Claim C5. After a successful checkout, the bill's food total is the sum of the
  totals of exactly the stored orders of type inhouse, of the requested room and of
  status Unpaid. Paid orders and orders of other rooms are left out; neither the
  request's phone nor an order's phone occurs in the selection.
\<close>

theorem checkout_food_total:
  assumes "create_final_bill e req s = (Inr bid, s')"
  shows "\<exists>b. db_bill s' = db_bill s @ [b] \<and> bl_id b = bid
           \<and> bl_foodTotal b =
               (\<Sum>od \<leftarrow> filter (\<lambda>od. od_type od = ''inhouse'' \<and> od_room od = Some (rq_room req)
                                      \<and> od_status od = ''Unpaid'') (db_order s). od_total od)"
proof -
  from assms obtain c t where h:
    "bid = bl_id (make_bill e c (max 1 ((now e - t) div 86400000000 + 1))
             (filter (unpaid_inhouse (rq_room req)) (db_order s)))"
    "db_bill s' = db_bill s @ [bill_document (db_next s)
        (make_bill e c (max 1 ((now e - t) div 86400000000 + 1))
             (filter (unpaid_inhouse (rq_room req)) (db_order s)))]"
    by (rule create_final_bill_success)
  let ?b = "bill_document (db_next s)
        (make_bill e c (max 1 ((now e - t) div 86400000000 + 1))
             (filter (unpaid_inhouse (rq_room req)) (db_order s)))"
  have flt: "unpaid_inhouse (rq_room req)
      = (\<lambda>od. od_type od = ''inhouse'' \<and> od_room od = Some (rq_room req) \<and> od_status od = ''Unpaid'')"
    by (rule ext) (simp add: unpaid_inhouse_def)
  have "bl_foodTotal ?b =
      (\<Sum>od \<leftarrow> filter (\<lambda>od. od_type od = ''inhouse'' \<and> od_room od = Some (rq_room req)
                             \<and> od_status od = ''Unpaid'') (db_order s). od_total od)"
    by (simp add: make_bill_sel flt)
  moreover have "db_bill s' = db_bill s @ [?b] \<and> bl_id ?b = bid" using h by simp
  ultimately show ?thesis by blast
qed

theorem checkout_food_total_witness:
  "\<exists>b. db_bill ex_db_after = db_bill ex_db @ [b] \<and> bl_foodTotal b = 150
      \<and> od_total ex_order_paid = 70 \<and> od_total ex_order_other = 40"
proof -
  from checkout_food_total [OF ex_checkout]
  obtain b where 1: "db_bill ex_db_after = db_bill ex_db @ [b]"
    "bl_foodTotal b =
       (\<Sum>od \<leftarrow> filter (\<lambda>od. od_type od = ''inhouse'' \<and> od_room od = Some (rq_room ex_req)
                              \<and> od_status od = ''Unpaid'') (db_order ex_db). od_total od)"
    by blast
  have "(\<Sum>od \<leftarrow> filter (\<lambda>od. od_type od = ''inhouse'' \<and> od_room od = Some (rq_room ex_req)
                              \<and> od_status od = ''Unpaid'') (db_order ex_db). od_total od) = 150"
    by (simp add: ex_db_def ex_req_def ex_order_def ex_order_paid_def ex_order_other_def)
  with 1 have "bl_foodTotal b = 150" by simp
  moreover have "od_total ex_order_paid = 70 \<and> od_total ex_order_other = 40"
    by (simp add: ex_order_paid_def ex_order_other_def)
  ultimately show ?thesis using 1(1) by blast
qed

section \<open>The checkout scenario of the specification\<close>

text \<open>
  Claim C1. Let the located Occupied check-in have rate 1000, advance 200 and a
  creation time exactly 25 hours before the current time, and let exactly one stored
  order be of type inhouse, of the same room and Unpaid, with total 150. Then the
  checkout succeeds; the bill it appends has nights 2, room charges 2000, food total
  150, tax 258, total 2208 and status Unpaid; the located check-in, in its place in
  the collection, has status Checked-out afterwards; and the order is stored with its
  synced flag true. (Store identifiers of check-ins are taken to be distinct, as the
  store assigns them.)
\<close>

theorem checkout_scenario:
  assumes uniq: "distinct (map ck_oid (db_checkin s))"
    and loc: "find_one (active_checkin req) (db_checkin s) = Some c"
    and rate: "ck_rate c = 1000"
    and adv: "ck_advance c = 200"
    and created: "ck_createdAt c = Stamp (Aware (now e - 25 * 3600 * 1000000))"
    and one: "filter (\<lambda>od. od_type od = ''inhouse'' \<and> od_room od = Some (rq_room req)
                            \<and> od_status od = ''Unpaid'') (db_order s) = [x]"
    and tot: "od_total x = 150"
  shows "\<exists>b s' pre post.
           create_final_bill e req s = (Inr (bl_id b), s')
           \<and> db_bill s' = db_bill s @ [b]
           \<and> bl_nights b = 2 \<and> bl_roomCharges b = 2000 \<and> bl_foodTotal b = 150
           \<and> bl_tax b = 258 \<and> bl_total b = 2208 \<and> bl_status b = ''Unpaid''
           \<and> db_checkin s = pre @ c # post
           \<and> db_checkin s' = pre @ c\<lparr>ck_status := ''Checked-out'',
                                       ck_updated_at := Some (Aware (now e))\<rparr> # post
           \<and> x\<lparr>od_synced := Some True, od_updated_at := Some (Aware (now e))\<rparr>
               \<in> set (db_order s')
           \<and> (\<forall>y \<in> set (db_order s'). od_oid y = od_oid x \<longrightarrow> od_synced y = Some True)"
proof -
  have start: "start_dt e c = Aware (now e - 25 * 3600 * 1000000)"
    using created by (simp add: start_dt_def created_at_def)
  have flt: "unpaid_inhouse (rq_room req)
      = (\<lambda>od. od_type od = ''inhouse'' \<and> od_room od = Some (rq_room req) \<and> od_status od = ''Unpaid'')"
    by (rule ext) (simp add: unpaid_inhouse_def)
  have orders: "filter (unpaid_inhouse (rq_room req)) (db_order s) = [x]"
    using one by (simp add: flt)
  have nights: "max 1 ((now e - (now e - 25 * 3600 * 1000000)) div 86400000000 + 1) = (2::int)"
    by simp
  define b where "b = bill_document (db_next s) (make_bill e c 2 [x])"
  define s' where "s' = s\<lparr>db_bill := db_bill s @ [b], db_next := Suc (db_next s),
        db_order := update_many (\<lambda>od. od_oid od \<in> od_oid ` set [x]) (set_synced e) (db_order s),
        db_checkin := update_one (\<lambda>d. ck_oid d = ck_oid c) (set_checked_out e) (db_checkin s)\<rparr>"
  have run: "create_final_bill e req s = (Inr (bl_id b), s')"
    using create_final_bill_run [OF loc start] unfolding nights orders
    by (simp add: b_def s'_def)
  have bills: "db_bill s' = db_bill s @ [b]" by (simp add: s'_def)
  have tax: "py_round (2150 * (12 / 100)) = 258"
    by (simp add: py_round_def)
  have fields: "bl_nights b = 2" "bl_roomCharges b = 2000" "bl_foodTotal b = 150"
    "bl_tax b = 258" "bl_total b = 2208" "bl_status b = ''Unpaid''"
    using tax by (simp_all add: b_def make_bill_sel rate adv tot)
  from loc obtain pre post where sp: "db_checkin s = pre @ c # post"
    by (auto simp: find_one_split)
  have "\<forall>d \<in> set pre. ck_oid d \<noteq> ck_oid c"
  proof
    fix d assume "d \<in> set pre"
    then have "ck_oid d \<in> ck_oid ` set pre" by (rule imageI)
    moreover from uniq have "ck_oid c \<notin> ck_oid ` set pre" unfolding sp by simp
    ultimately show "ck_oid d \<noteq> ck_oid c" by metis
  qed
  then have "update_one (\<lambda>d. ck_oid d = ck_oid c) (set_checked_out e) (pre @ c # post)
      = pre @ set_checked_out e c # post"
    by (simp add: update_one_split)
  then have rooms: "db_checkin s' = pre @ c\<lparr>ck_status := ''Checked-out'',
                                       ck_updated_at := Some (Aware (now e))\<rparr> # post"
    by (simp add: s'_def sp set_checked_out_def)
  have "x \<in> set (filter (unpaid_inhouse (rq_room req)) (db_order s))"
    unfolding orders by simp
  then have xin: "x \<in> set (db_order s)" "unpaid_inhouse (rq_room req) x"
    by simp_all
  have ords: "db_order s' = update_many (\<lambda>od. od_oid od \<in> od_oid ` set [x]) (set_synced e) (db_order s)"
    by (simp add: s'_def)
  have synced: "x\<lparr>od_synced := Some True, od_updated_at := Some (Aware (now e))\<rparr> \<in> set (db_order s')"
    using xin(1) unfolding ords by (auto simp: update_many_def set_synced_def)
  have all: "\<forall>y \<in> set (db_order s'). od_oid y = od_oid x \<longrightarrow> od_synced y = Some True"
    unfolding ords by (auto simp: update_many_def set_synced_def)
  from run bills fields sp rooms synced all show ?thesis by blast
qed

theorem checkout_scenario_witness:
  "\<exists>b s' pre post.
      create_final_bill ex_env ex_req ex_db = (Inr (bl_id b), s')
      \<and> db_bill s' = db_bill ex_db @ [b]
      \<and> bl_nights b = 2 \<and> bl_roomCharges b = 2000 \<and> bl_foodTotal b = 150
      \<and> bl_tax b = 258 \<and> bl_total b = 2208 \<and> bl_status b = ''Unpaid''
      \<and> db_checkin ex_db = pre @ ex_checkin # post
      \<and> db_checkin s' = pre @ ex_checkin\<lparr>ck_status := ''Checked-out'',
                                  ck_updated_at := Some (Aware (now ex_env))\<rparr> # post
      \<and> ex_order\<lparr>od_synced := Some True, od_updated_at := Some (Aware (now ex_env))\<rparr>
          \<in> set (db_order s')
      \<and> (\<forall>y \<in> set (db_order s'). od_oid y = od_oid ex_order \<longrightarrow> od_synced y = Some True)"
proof (rule checkout_scenario)
  show "distinct (map ck_oid (db_checkin ex_db))" by (simp add: ex_db_def)
  show "find_one (active_checkin ex_req) (db_checkin ex_db) = Some ex_checkin" by (rule ex_start)
  show "ck_rate ex_checkin = 1000" by (simp add: ex_checkin_def)
  show "ck_advance ex_checkin = 200" by (simp add: ex_checkin_def)
  show "ck_createdAt ex_checkin = Stamp (Aware (now ex_env - 25 * 3600 * 1000000))"
    by (simp add: ex_checkin_def ex_env_def)
  show "filter (\<lambda>od. od_type od = ''inhouse'' \<and> od_room od = Some (rq_room ex_req)
                            \<and> od_status od = ''Unpaid'') (db_order ex_db) = [ex_order]"
    by (simp add: ex_db_def ex_req_def ex_order_def ex_order_paid_def ex_order_other_def)
  show "od_total ex_order = 150" by (simp add: ex_order_def)
qed

section \<open>What the sync step changes\<close>

lemma unpaid_inhouse_set_synced [simp]:
  "unpaid_inhouse room (set_synced e od) = unpaid_inhouse room od"
  by (simp add: unpaid_inhouse_def set_synced_def)

lemma od_total_set_synced [simp]: "od_total (set_synced e od) = od_total od"
  by (simp add: set_synced_def)

lemma filter_update_many_synced:
  "filter (unpaid_inhouse room)
     (update_many (\<lambda>od. od_oid od \<in> od_oid ` set (filter (unpaid_inhouse room) coll))
        (set_synced e) coll)
   = map (set_synced e) (filter (unpaid_inhouse room) coll)"
proof -
  let ?I = "\<lambda>od. od_oid od \<in> od_oid ` set (filter (unpaid_inhouse room) coll)"
  let ?g = "\<lambda>d. if ?I d then set_synced e d else d"
  have keep: "unpaid_inhouse room \<circ> ?g = unpaid_inhouse room"
    by (rule ext) simp
  have "filter (unpaid_inhouse room) (map ?g coll)
      = map ?g (filter (unpaid_inhouse room \<circ> ?g) coll)"
    by (rule filter_map)
  also have "\<dots> = map ?g (filter (unpaid_inhouse room) coll)"
    unfolding keep ..
  also have "\<dots> = map (set_synced e) (filter (unpaid_inhouse room) coll)"
    by (rule map_cong) auto
  finally show ?thesis by (simp add: update_many_def)
qed

text \<open>
  Claim C10. After a successful checkout the order collection has the same length,
  and every order is either unchanged or differs from its old value in the synced
  flag (now true) and the update stamp only. An order that was folded into the bill
  is changed so; its status is still Unpaid and it still passes the selection of line
  134. Hence any later successful checkout of the same room, on a store holding these
  orders, folds the same orders again: its bill's food total is the same sum.
\<close>

theorem checkout_sync_frame:
  assumes "create_final_bill e req s = (Inr bid, s')"
  shows "length (db_order s') = length (db_order s)
     \<and> (\<forall>i < length (db_order s).
           (db_order s' ! i = db_order s ! i
            \<or> db_order s' ! i = (db_order s ! i)\<lparr>od_synced := Some True,
                                                   od_updated_at := Some (Aware (now e))\<rparr>)
           \<and> (unpaid_inhouse (rq_room req) (db_order s ! i) \<longrightarrow>
                db_order s' ! i = (db_order s ! i)\<lparr>od_synced := Some True,
                                                     od_updated_at := Some (Aware (now e))\<rparr>
                \<and> od_status (db_order s' ! i) = ''Unpaid''
                \<and> unpaid_inhouse (rq_room req) (db_order s' ! i)))
     \<and> (\<forall>e2 req2 s2 bid2 s2'.
           rq_room req2 = rq_room req \<and> db_order s2 = db_order s'
           \<and> create_final_bill e2 req2 s2 = (Inr bid2, s2') \<longrightarrow>
           (\<exists>b2. db_bill s2' = db_bill s2 @ [b2] \<and> bl_id b2 = bid2
                 \<and> bl_foodTotal b2
                     = (\<Sum>od \<leftarrow> filter (unpaid_inhouse (rq_room req)) (db_order s). od_total od)))"
proof -
  let ?F = "unpaid_inhouse (rq_room req)"
  let ?I = "\<lambda>od. od_oid od \<in> od_oid ` set (filter ?F (db_order s))"
  from assms have ords: "db_order s' = update_many ?I (set_synced e) (db_order s)"
    by (rule create_final_bill_success)
  have len: "length (db_order s') = length (db_order s)"
    by (simp add: ords update_many_def)
  have each: "\<forall>i < length (db_order s).
           (db_order s' ! i = db_order s ! i
            \<or> db_order s' ! i = (db_order s ! i)\<lparr>od_synced := Some True,
                                                   od_updated_at := Some (Aware (now e))\<rparr>)
           \<and> (?F (db_order s ! i) \<longrightarrow>
                db_order s' ! i = (db_order s ! i)\<lparr>od_synced := Some True,
                                                     od_updated_at := Some (Aware (now e))\<rparr>
                \<and> od_status (db_order s' ! i) = ''Unpaid''
                \<and> ?F (db_order s' ! i))"
  proof (intro allI impI)
    fix i assume i: "i < length (db_order s)"
    let ?x = "db_order s ! i"
    have nth: "db_order s' ! i = (if ?I ?x then set_synced e ?x else ?x)"
      using i by (simp add: ords update_many_def)
    have a: "db_order s' ! i = ?x
        \<or> db_order s' ! i = ?x\<lparr>od_synced := Some True, od_updated_at := Some (Aware (now e))\<rparr>"
      unfolding nth by (simp add: set_synced_def)
    have b: "db_order s' ! i = ?x\<lparr>od_synced := Some True, od_updated_at := Some (Aware (now e))\<rparr>
        \<and> od_status (db_order s' ! i) = ''Unpaid'' \<and> ?F (db_order s' ! i)" if f: "?F ?x"
    proof -
      from i f have "?x \<in> set (filter ?F (db_order s))" by simp
      then have "?I ?x" by (rule imageI)
      then have "db_order s' ! i = set_synced e ?x" unfolding nth by simp
      with f show ?thesis by (simp add: set_synced_def unpaid_inhouse_def)
    qed
    from a b show "(db_order s' ! i = ?x
            \<or> db_order s' ! i = ?x\<lparr>od_synced := Some True, od_updated_at := Some (Aware (now e))\<rparr>)
           \<and> (?F ?x \<longrightarrow>
                db_order s' ! i = ?x\<lparr>od_synced := Some True, od_updated_at := Some (Aware (now e))\<rparr>
                \<and> od_status (db_order s' ! i) = ''Unpaid''
                \<and> ?F (db_order s' ! i))"
      by blast
  qed
  have again: "\<forall>e2 req2 s2 bid2 s2'.
           rq_room req2 = rq_room req \<and> db_order s2 = db_order s'
           \<and> create_final_bill e2 req2 s2 = (Inr bid2, s2') \<longrightarrow>
           (\<exists>b2. db_bill s2' = db_bill s2 @ [b2] \<and> bl_id b2 = bid2
                 \<and> bl_foodTotal b2 = (\<Sum>od \<leftarrow> filter ?F (db_order s). od_total od))"
  proof (intro allI impI, elim conjE)
    fix e2 req2 s2 bid2 s2'
    assume room: "rq_room req2 = rq_room req" and same: "db_order s2 = db_order s'"
      and run: "create_final_bill e2 req2 s2 = (Inr bid2, s2')"
    from run obtain c t where h:
      "bid2 = bl_id (make_bill e2 c (max 1 ((now e2 - t) div 86400000000 + 1))
             (filter (unpaid_inhouse (rq_room req2)) (db_order s2)))"
      "db_bill s2' = db_bill s2 @ [bill_document (db_next s2)
        (make_bill e2 c (max 1 ((now e2 - t) div 86400000000 + 1))
             (filter (unpaid_inhouse (rq_room req2)) (db_order s2)))]"
      by (rule create_final_bill_success)
    let ?b = "bill_document (db_next s2)
        (make_bill e2 c (max 1 ((now e2 - t) div 86400000000 + 1))
             (filter (unpaid_inhouse (rq_room req2)) (db_order s2)))"
    have "filter (unpaid_inhouse (rq_room req2)) (db_order s2)
        = map (set_synced e) (filter ?F (db_order s))"
      unfolding room same ords by (rule filter_update_many_synced)
    then have "bl_foodTotal ?b = (\<Sum>od \<leftarrow> filter ?F (db_order s). od_total od)"
      by (simp add: make_bill_sel comp_def)
    moreover have "db_bill s2' = db_bill s2 @ [?b] \<and> bl_id ?b = bid2" using h by simp
    ultimately show "\<exists>b2. db_bill s2' = db_bill s2 @ [b2] \<and> bl_id b2 = bid2
                 \<and> bl_foodTotal b2 = (\<Sum>od \<leftarrow> filter ?F (db_order s). od_total od)"
      by blast
  qed
  from len each again show ?thesis by blast
qed

lemma ex_checkout_next:
  "create_final_bill ex_env ex_req_next ex_db_next
     = (Inr ''BILL-A30F00FF'', snd (create_final_bill ex_env ex_req_next ex_db_next))"
  by code_simp

lemma ex_db_next_orders: "db_order ex_db_next = db_order ex_db_after"
  by code_simp

theorem checkout_sync_frame_witness:
  "unpaid_inhouse (rq_room ex_req) (db_order ex_db ! 0)
   \<and> db_order ex_db_after ! 0 = (db_order ex_db ! 0)\<lparr>od_synced := Some True,
                                     od_updated_at := Some (Aware (now ex_env))\<rparr>
   \<and> od_status (db_order ex_db_after ! 0) = ''Unpaid''
   \<and> unpaid_inhouse (rq_room ex_req) (db_order ex_db_after ! 0)
   \<and> (\<exists>b2. db_bill (snd (create_final_bill ex_env ex_req_next ex_db_next))
               = db_bill ex_db_next @ [b2]
          \<and> bl_foodTotal b2 = 150)"
proof -
  note fr = checkout_sync_frame [OF ex_checkout]
  have i: "0 < length (db_order ex_db)" by (simp add: ex_db_def)
  have f: "unpaid_inhouse (rq_room ex_req) (db_order ex_db ! 0)"
    by (simp add: unpaid_inhouse_def ex_req_def ex_db_def ex_order_def)
  from fr i f have A: "db_order ex_db_after ! 0 = (db_order ex_db ! 0)\<lparr>od_synced := Some True,
                                     od_updated_at := Some (Aware (now ex_env))\<rparr>
       \<and> od_status (db_order ex_db_after ! 0) = ''Unpaid''
       \<and> unpaid_inhouse (rq_room ex_req) (db_order ex_db_after ! 0)"
    by blast
  have room: "rq_room ex_req_next = rq_room ex_req"
    by (simp add: ex_req_next_def ex_req_def)
  from fr room ex_db_next_orders ex_checkout_next
  obtain b2 where b2: "db_bill (snd (create_final_bill ex_env ex_req_next ex_db_next))
               = db_bill ex_db_next @ [b2]"
    "bl_foodTotal b2
       = (\<Sum>od \<leftarrow> filter (unpaid_inhouse (rq_room ex_req)) (db_order ex_db). od_total od)"
    by blast
  have "(\<Sum>od \<leftarrow> filter (unpaid_inhouse (rq_room ex_req)) (db_order ex_db). od_total od) = 150"
    by (simp add: unpaid_inhouse_def ex_db_def ex_req_def ex_order_def ex_order_paid_def
          ex_order_other_def)
  with b2 have "\<exists>b2. db_bill (snd (create_final_bill ex_env ex_req_next ex_db_next))
               = db_bill ex_db_next @ [b2] \<and> bl_foodTotal b2 = 150"
    by auto
  with f A show ?thesis by blast
qed

section \<open>Every handler keeps the store well-formed\<close>

text \<open>The distinctness of check-in identifiers that the checkout scenario relies
  on holds in the empty store and is kept by every handler.\<close>

lemma map_update_one:
  "(\<And>d. f (upd d) = f d) \<Longrightarrow> map f (update_one flt upd coll) = map f coll"
  by (induction coll) auto

lemma map_update_many:
  "(\<And>d. f (upd d) = f d) \<Longrightarrow> map f (update_many flt upd coll) = map f coll"
  by (simp add: update_many_def)

lemma wf_db_empty: "wf_db empty_db"
  by (simp add: wf_db_def empty_db_def)

lemma wf_db_checkin_distinct: "wf_db s \<Longrightarrow> distinct (map ck_oid (db_checkin s))"
  by (simp add: wf_db_def)

lemma wf_db_create_checkin:
  assumes "wf_db s"
  shows "wf_db (snd (create_checkin e payload s))"
proof (cases "find_one (room_occupied (ci_room payload)) (db_checkin s)")
  case (Some d)
  then have "snd (create_checkin e payload s) = s"
    by (simp add: create_checkin_def Let_def model_dump_def)
  with assms show ?thesis by simp
next
  case None
  then obtain d where "snd (create_checkin e payload s)
      = s\<lparr>db_checkin := db_checkin s @ [d], db_next := Suc (db_next s)\<rparr>" "ck_oid d = db_next s"
    by (cases "ci_createdAt payload")
       (simp_all add: create_checkin_def Let_def model_dump_def create_document_checkin_def
          checkin_document_def)
  with assms show ?thesis by (fastforce simp: wf_db_def)
qed

lemma wf_db_create_order:
  assumes "wf_db s"
  shows "wf_db (snd (create_order e payload s))"
  using assms by (fastforce simp: wf_db_def create_order_stores)

lemma wf_db_mark_bill_paid:
  assumes "wf_db s"
  shows "wf_db (snd (mark_bill_paid e bill_id payload s))"
proof -
  have "map bl_oid (update_one (has_bill_id bill_id) (set_paid e (pr_mode payload)) (db_bill s))
      = map bl_oid (db_bill s)"
    by (rule map_update_one) (simp add: set_paid_def)
  with assms show ?thesis
    by (simp add: wf_db_def mark_bill_paid_def Let_def del: set_map)
qed

lemma wf_db_create_final_bill:
  assumes "wf_db s"
  shows "wf_db (snd (create_final_bill e req s))"
proof (cases "find_one (active_checkin req) (db_checkin s)")
  case None
  then show ?thesis using assms by (simp add: create_final_bill_def)
next
  case (Some c)
  show ?thesis
  proof (cases "start_dt e c")
    case (Naive t)
    with Some show ?thesis using assms by (simp add: create_final_bill_def nights_of_def)
  next
    case (Aware t)
    have 1: "map ck_oid (update_one (\<lambda>d. ck_oid d = ck_oid c) (set_checked_out e) (db_checkin s))
        = map ck_oid (db_checkin s)"
      by (rule map_update_one) (simp add: set_checked_out_def)
    have 2: "map od_oid (update_many P (set_synced e) (db_order s)) = map od_oid (db_order s)"
      for P
      by (rule map_update_many) (simp add: set_synced_def)
    have 3: "bl_oid (bill_document i b) = i" for i b
      by (simp add: bill_document_def Bill.extend_def)
    have fresh: "db_next s \<notin> set (map bl_oid (db_bill s))"
      using assms unfolding wf_db_def by blast
    have below: "\<forall>i \<in> set (map ck_oid (db_checkin s)). i < Suc (db_next s)"
      "\<forall>i \<in> set (map od_oid (db_order s)). i < Suc (db_next s)"
      "\<forall>i \<in> set (map bl_oid (db_bill s)). i < Suc (db_next s)"
      using assms unfolding wf_db_def by (blast intro: less_SucI)+
    from assms have dist: "distinct (map ck_oid (db_checkin s))"
      "distinct (map od_oid (db_order s))" "distinct (map bl_oid (db_bill s))"
      unfolding wf_db_def by blast+
    show ?thesis
      unfolding create_final_bill_run [OF Some Aware]
      using fresh below dist
      by (simp add: wf_db_def 1 2 3 del: set_map)
  qed
qed

end
